theory Spec2Isabelle
  imports Main
begin

section \<open>The chat relay server of webrtc-from-chat/chat-server.js\<close>

text \<open>
  The server keeps three module-level variables: \<^verbatim>\<open>connectionArray\<close>,
  \<^verbatim>\<open>nextID\<close> and \<^verbatim>\<open>appendToMakeUnique\<close>. Three handlers touch them:
  the \<^verbatim>\<open>request\<close> handler of the WebSocket server, and the \<^verbatim>\<open>message\<close>
  and \<^verbatim>\<open>close\<close> handlers of every accepted connection. Each handler runs to
  completion, so a handler is a function from the state before to the state after; a
  handler that throws is a value \<open>Inl\<close> carrying the exception and the state as the
  throw left it.
\<close>

subsection \<open>Values\<close>

text \<open>
  What a string-typed property holds inside the handlers: a string, \<^verbatim>\<open>undefined\<close>
  (the property is absent), or \<^verbatim>\<open>NaN\<close>, which is what
  \<^verbatim>\<open>undefined + appendToMakeUnique\<close> evaluates to. Strings are lists of code units.
\<close>

datatype jsval = Undefined | NaN | Str string

text \<open>The operator \<^verbatim>\<open>===\<close> on these values: \<^verbatim>\<open>NaN\<close> equals nothing.\<close>

fun strict_eq :: "jsval \<Rightarrow> jsval \<Rightarrow> bool" where
  "strict_eq Undefined Undefined = True"
| "strict_eq (Str a) (Str b) = (a = b)"
| "strict_eq _ _ = False"

text \<open>The decimal text of a non-negative integer, as string concatenation renders a number.\<close>

definition digit_char :: "nat \<Rightarrow> char" where
  "digit_char d = char_of (48 + d)"

fun decimal :: "nat \<Rightarrow> string" where
  "decimal n = (if n < 10 then [digit_char n] else decimal (n div 10) @ [digit_char (n mod 10)])"

declare decimal.simps [simp del]

text \<open>
  \<^verbatim>\<open>origName + appendToMakeUnique\<close>: a string is concatenated with the decimal text of
  the number; \<^verbatim>\<open>undefined\<close> and \<^verbatim>\<open>NaN\<close> give \<^verbatim>\<open>NaN\<close>.
\<close>

fun js_add :: "jsval \<Rightarrow> nat \<Rightarrow> jsval" where
  "js_add (Str s) n = Str (s @ decimal n)"
| "js_add Undefined n = NaN"
| "js_add NaN n = NaN"

subsection \<open>Messages, frames and connections\<close>

text \<open>
  A decoded inbound message: the properties the handler reads, and the remaining ones as
  an opaque payload. \<open>msg_id = None\<close> is an absent \<^verbatim>\<open>id\<close>; the other properties are
  \<open>Undefined\<close> when absent. The model covers JSON objects whose \<^verbatim>\<open>id\<close>, when present,
  is an integer and whose \<^verbatim>\<open>type\<close>, \<^verbatim>\<open>name\<close>, \<^verbatim>\<open>text\<close> and \<^verbatim>\<open>target\<close>,
  when present, are strings.
\<close>

record msg =
  msg_id :: "int option"
  msg_type :: jsval
  msg_name :: jsval
  msg_text :: jsval
  msg_target :: jsval
  msg_payload :: string

text \<open>
  The text of a utf8 frame, by what \<^verbatim>\<open>JSON.parse\<close> does with it: it throws a
  \<^verbatim>\<open>SyntaxError\<close> (\<open>Malformed\<close>, with the text), or it returns an object.
\<close>

datatype utf8Data = Malformed string | Json msg

datatype message = Utf8 utf8Data | Binary

text \<open>
  An outbound frame is identified with the object handed to \<^verbatim>\<open>JSON.stringify\<close>:
  \<^verbatim>\<open>{type: "id", id}\<close>, \<^verbatim>\<open>{type: "userlist", users}\<close>,
  \<^verbatim>\<open>{id, type: "rejectusername", name}\<close>, or the revised inbound message.
\<close>

datatype frame =
    IdMsg int
  | UserListMsg "jsval list"
  | RejectUsername "int option" jsval
  | Relay msg

text \<open>
  A connection object: the two properties the server adds (\<^verbatim>\<open>clientID\<close>,
  \<^verbatim>\<open>username\<close>), the two of the transport it reads (\<^verbatim>\<open>connected\<close>,
  \<^verbatim>\<open>remoteAddress\<close>), and the frames handed to its \<^verbatim>\<open>send\<close> and
  \<^verbatim>\<open>sendUTF\<close>, oldest first.
\<close>

record connection =
  clientID :: int
  username :: jsval
  connected :: bool
  remoteAddress :: string
  outbox :: "frame list"

datatype log_entry =
    ConnectionRejected string
  | ConnectionAccepted string
  | ReceivedMessage utf8Data
  | ConnectionClosed string int "string option"

record server =
  connectionArray :: "connection list"
  nextID :: int
  appendToMakeUnique :: nat
  console :: "log_entry list"

datatype js_error = SyntaxError | TypeError

type_synonym outcome = "(js_error \<times> server) + server"

definition log :: "log_entry \<Rightarrow> server \<Rightarrow> server" where
  "log entry s = s\<lparr>console := console s @ [entry]\<rparr>"

definition sendUTF :: "frame \<Rightarrow> connection \<Rightarrow> connection" where
  "sendUTF f c = c\<lparr>outbox := outbox c @ [f]\<rparr>"

text \<open>\<^verbatim>\<open>connection.send\<close> of a string is \<^verbatim>\<open>sendUTF\<close>.\<close>

definition send :: "frame \<Rightarrow> connection \<Rightarrow> connection" where
  "send f c = sendUTF f c"

subsection \<open>Lookups\<close>

text \<open>The position of the first element that satisfies a test, as a scan with \<^verbatim>\<open>break\<close> finds it.\<close>

fun findIndex :: "('a \<Rightarrow> bool) \<Rightarrow> 'a list \<Rightarrow> nat option" where
  "findIndex p [] = None"
| "findIndex p (x # xs) =
     (if p x then Some 0 else (case findIndex p xs of None \<Rightarrow> None | Some i \<Rightarrow> Some (Suc i)))"

definition isUsernameUnique :: "connection list \<Rightarrow> jsval \<Rightarrow> bool" where
  "isUsernameUnique cs name = (findIndex (\<lambda>c. strict_eq (username c) name) cs = None)"

text \<open>
  \<^verbatim>\<open>getConnectionForID\<close> returns the connection object or \<^verbatim>\<open>null\<close>; the object
  is the array element at the position found.
\<close>

definition getConnectionForID :: "connection list \<Rightarrow> int option \<Rightarrow> nat option" where
  "getConnectionForID cs ident = findIndex (\<lambda>c. Some (clientID c) = ident) cs"

definition makeUserListMessage :: "connection list \<Rightarrow> frame" where
  "makeUserListMessage cs = UserListMsg (map username cs)"

definition sendUserListToAll :: "connection list \<Rightarrow> connection list" where
  "sendUserListToAll cs = map (sendUTF (makeUserListMessage cs)) cs"

text \<open>
  \<^verbatim>\<open>sendToOneUser\<close>: \<^verbatim>\<open>find\<close> returns \<^verbatim>\<open>undefined\<close> when no connection has
  the name, and calling \<^verbatim>\<open>send\<close> on it throws a \<^verbatim>\<open>TypeError\<close>.
\<close>

definition sendToOneUser :: "jsval \<Rightarrow> frame \<Rightarrow> connection list \<Rightarrow> js_error + connection list" where
  "sendToOneUser target f cs =
     (case findIndex (\<lambda>conn. strict_eq (username conn) target) cs of
        None \<Rightarrow> Inl TypeError
      | Some i \<Rightarrow> Inr (cs[i := send f (cs ! i)]))"

subsection \<open>Chat text\<close>

text \<open>
  \<^verbatim>\<open>text.replace(/(<([^>]+)>)/gi, "")\<close>. A match starts at a \<^verbatim>\<open><\<close>, takes one or
  more characters other than \<^verbatim>\<open>>\<close> and then a \<^verbatim>\<open>>\<close>; \<open>tag_end\<close> gives what
  follows the match that starts just before its argument. The scan goes left to right
  and resumes after each match.
\<close>

definition tag_end :: "string \<Rightarrow> string option" where
  "tag_end cs =
     (if takeWhile (\<lambda>c. c \<noteq> CHR ''>'') cs = [] \<or> dropWhile (\<lambda>c. c \<noteq> CHR ''>'') cs = [] then None
      else Some (tl (dropWhile (\<lambda>c. c \<noteq> CHR ''>'') cs)))"

lemma tag_end_shorter: "tag_end cs = Some r \<Longrightarrow> length r < Suc (length cs)"
proof -
  assume "tag_end cs = Some r"
  then have r: "r = tl (dropWhile (\<lambda>c. c \<noteq> CHR ''>'') cs)"
    by (simp add: tag_end_def split: if_splits)
  have "length (dropWhile (\<lambda>c. c \<noteq> CHR ''>'') cs) \<le> length cs"
    by (rule length_dropWhile_le)
  with r show ?thesis by simp
qed

function strip :: "string \<Rightarrow> string" where
  "strip [] = []"
| "strip (c # cs) =
     (if c = CHR ''<'' then (case tag_end cs of Some r \<Rightarrow> strip r | None \<Rightarrow> c # strip cs)
      else c # strip cs)"
  by pat_completeness auto
termination
  by (relation "measure length") (auto dest: tag_end_shorter)

subsection \<open>The name loop\<close>

text \<open>
  \<^verbatim>\<open>while (!isUsernameUnique(msg.name)) { msg.name = origName + appendToMakeUnique;
  appendToMakeUnique++; nameChanged = true; }\<close>. The loop state is \<^verbatim>\<open>msg.name\<close>,
  \<^verbatim>\<open>appendToMakeUnique\<close> and \<^verbatim>\<open>nameChanged\<close>; the counter is a natural number
  (the server would need \<open>2 ^ 53\<close> renames before a JavaScript number stops counting).
\<close>

text \<open>
  The loop ends because the candidates differ from one another: the number that a decimal
  text denotes gives the suffix back.
\<close>

definition dec_val :: "string \<Rightarrow> nat" where
  "dec_val ds = foldl (\<lambda>a c. 10 * a + (of_char c - 48)) 0 ds"

lemma dec_val_digit: "d < 10 \<Longrightarrow> (of_char (digit_char d) :: nat) - 48 = d"
  by (simp add: digit_char_def)

lemma dec_val_decimal: "dec_val (decimal n) = n"
proof (induction n rule: decimal.induct)
  case (1 n)
  show ?case
  proof (cases "n < 10")
    case True
    then show ?thesis
      by (subst decimal.simps) (simp add: dec_val_def dec_val_digit)
  next
    case False
    have m: "n mod 10 < 10" by simp
    from False 1 have "dec_val (decimal (n div 10)) = n div 10" by simp
    then have "dec_val (decimal (n div 10) @ [digit_char (n mod 10)]) = 10 * (n div 10) + n mod 10"
      using dec_val_digit [OF m] by (simp add: dec_val_def)
    with False show ?thesis
      by (subst decimal.simps) simp
  qed
qed

lemma decimal_inj: "decimal m = decimal n \<Longrightarrow> m = n"
  by (metis dec_val_decimal)

lemma decimal_not_Nil: "decimal n \<noteq> []"
  by (subst decimal.simps) simp

lemma findIndex_None: "findIndex p xs = None \<longleftrightarrow> (\<forall>x \<in> set xs. \<not> p x)"
  by (induction xs) (auto split: option.splits)

lemma strict_eq_Str: "strict_eq v (Str a) \<longleftrightarrow> v = Str a"
  by (cases v) auto

lemma strict_eq_NaN: "\<not> strict_eq v NaN"
  by (cases v) auto

lemma not_unique_js_add:
  assumes "\<not> isUsernameUnique cs (js_add orig j)"
  shows "(\<exists>s. orig = Str s) \<and> js_add orig j \<in> username ` set cs"
proof (cases orig)
  case (Str s)
  with assms show ?thesis
    by (force simp: isUsernameUnique_def findIndex_None strict_eq_Str)
qed (use assms in \<open>auto simp: isUsernameUnique_def findIndex_None strict_eq_NaN\<close>)

lemma js_add_inj: "js_add (Str s) i = js_add (Str s) j \<Longrightarrow> i = j"
  by (simp add: decimal_inj)

text \<open>The suffixes from \<open>n\<close> on whose candidate name is taken: there are finitely many.\<close>

definition taken_from :: "connection list \<Rightarrow> jsval \<Rightarrow> nat \<Rightarrow> nat set" where
  "taken_from cs orig n = {j. n \<le> j \<and> \<not> isUsernameUnique cs (js_add orig j)}"

lemma finite_taken_from: "finite (taken_from cs orig n)"
proof (cases "\<exists>s. orig = Str s")
  case True
  then obtain s where s: "orig = Str s" ..
  have "inj (js_add (Str s))"
    by (rule injI) (rule js_add_inj)
  then have "finite (js_add (Str s) -` (username ` set cs))"
    by (intro finite_vimageI) simp_all
  moreover have "taken_from cs orig n \<subseteq> js_add (Str s) -` (username ` set cs)"
    using not_unique_js_add [of cs orig] by (auto simp: taken_from_def s)
  ultimately show ?thesis by (rule rev_finite_subset)
next
  case False
  then have "taken_from cs orig n = {}"
    using not_unique_js_add [of cs orig] by (auto simp: taken_from_def)
  then show ?thesis by simp
qed

lemma taken_from_step:
  "taken_from cs orig n =
     (if isUsernameUnique cs (js_add orig n) then taken_from cs orig (Suc n)
      else insert n (taken_from cs orig (Suc n)))"
  by (auto simp: taken_from_def Suc_le_eq le_less)

lemma card_taken_from_step:
  "card (taken_from cs orig n) =
     card (taken_from cs orig (Suc n)) + (if isUsernameUnique cs (js_add orig n) then 0 else 1)"
proof -
  have "n \<notin> taken_from cs orig (Suc n)"
    by (simp add: taken_from_def)
  then show ?thesis
    by (subst taken_from_step) (simp add: finite_taken_from)
qed

function makeUnique :: "connection list \<Rightarrow> jsval \<Rightarrow> jsval \<Rightarrow> nat \<Rightarrow> bool \<Rightarrow> jsval \<times> nat \<times> bool" where
  "makeUnique cs origName name n nameChanged =
     (if \<not> isUsernameUnique cs name then makeUnique cs origName (js_add origName n) (Suc n) True
      else (name, n, nameChanged))"
  by pat_completeness auto
termination
proof (relation "measure (\<lambda>(cs, origName, name, n, nameChanged).
        card (taken_from cs origName n) + (if isUsernameUnique cs name then 0 else 1))")
  fix cs :: "connection list" and origName name :: jsval and n :: nat and nameChanged :: bool
  assume "\<not> isUsernameUnique cs name"
  then show "((cs, origName, js_add origName n, Suc n, True), (cs, origName, name, n, nameChanged))
      \<in> measure (\<lambda>(cs, origName, name, n, nameChanged).
        card (taken_from cs origName n) + (if isUsernameUnique cs name then 0 else 1))"
    using card_taken_from_step [of cs origName n] by simp
qed simp

declare makeUnique.simps [simp del]

subsection \<open>The handlers\<close>

definition originIsAllowed :: "string \<Rightarrow> bool" where
  "originIsAllowed origin = True"

text \<open>
  The \<^verbatim>\<open>request\<close> handler, for a request with the given origin whose accepted
  connection has the given remote address: the connection is pushed, gets
  \<^verbatim>\<open>nextID\<close> as its \<^verbatim>\<open>clientID\<close>, and is sent the \<^verbatim>\<open>id\<close> message. Its
  \<^verbatim>\<open>username\<close> is not set.
\<close>

definition on_request :: "string \<Rightarrow> string \<Rightarrow> server \<Rightarrow> server" where
  "on_request origin addr s =
     (if \<not> originIsAllowed origin then log (ConnectionRejected origin) s
      else
        let s1 = log (ConnectionAccepted addr) s;
            connection = \<lparr>clientID = nextID s1, username = Undefined, connected = True,
                          remoteAddress = addr, outbox = []\<rparr>
        in s1\<lparr>connectionArray := connectionArray s1 @ [sendUTF (IdMsg (nextID s1)) connection],
               nextID := nextID s1 + 1\<rparr>)"

text \<open>
  The last block of the \<^verbatim>\<open>message\<close> handler (\<^verbatim>\<open>if (sendToClients)\<close>):
  \<^verbatim>\<open>msg.target && msg.target.length !== 0\<close> holds for a non-empty string only.
\<close>

definition has_target :: "msg \<Rightarrow> bool" where
  "has_target m = (case msg_target m of Str t \<Rightarrow> t \<noteq> [] | _ \<Rightarrow> False)"

definition dispatch :: "msg \<Rightarrow> server \<Rightarrow> outcome" where
  "dispatch m s =
     (if has_target m then
        (case sendToOneUser (msg_target m) (Relay m) (connectionArray s) of
           Inl e \<Rightarrow> Inl (e, s)
         | Inr cs \<Rightarrow> Inr (s\<lparr>connectionArray := cs\<rparr>))
      else Inr (s\<lparr>connectionArray := map (send (Relay m)) (connectionArray s)\<rparr>))"

text \<open>
  The \<^verbatim>\<open>message\<close> handler. Nothing is done for a frame that is not utf8. The frame
  is logged, then parsed; \<^verbatim>\<open>connect\<close> is looked up by \<^verbatim>\<open>msg.id\<close> and is the
  position in the array, or \<open>None\<close> for \<^verbatim>\<open>null\<close>, on which every property access
  throws. No handler is installed for exceptions.
\<close>

definition on_message :: "message \<Rightarrow> server \<Rightarrow> outcome" where
  "on_message message s =
     (case message of
        Binary \<Rightarrow> Inr s
      | Utf8 d \<Rightarrow>
          let s1 = log (ReceivedMessage d) s in
          (case d of
             Malformed t \<Rightarrow> Inl (SyntaxError, s1)
           | Json m \<Rightarrow>
               let connect = getConnectionForID (connectionArray s1) (msg_id m) in
               if msg_type m = Str ''message'' then
                 (case connect of
                    None \<Rightarrow> Inl (TypeError, s1)
                  | Some i \<Rightarrow>
                      let m1 = m\<lparr>msg_name := username (connectionArray s1 ! i)\<rparr> in
                      (case msg_text m1 of
                         Str t \<Rightarrow> dispatch (m1\<lparr>msg_text := Str (strip t)\<rparr>) s1
                       | _ \<Rightarrow> Inl (TypeError, s1)))
               else if msg_type m = Str ''username'' then
                 (case makeUnique (connectionArray s1) (msg_name m) (msg_name m)
                         (appendToMakeUnique s1) False of
                    (name, n, nameChanged) \<Rightarrow>
                      let s2 = s1\<lparr>appendToMakeUnique := n\<rparr> in
                      (case connect of
                         None \<Rightarrow> Inl (TypeError, s2)
                       | Some i \<Rightarrow>
                           let cs = connectionArray s2;
                               cs1 = (if nameChanged
                                      then cs[i := sendUTF (RejectUsername (msg_id m) name) (cs ! i)]
                                      else cs);
                               cs2 = cs1[i := (cs1 ! i)\<lparr>username := name\<rparr>]
                           in Inr (s2\<lparr>connectionArray := sendUserListToAll cs2\<rparr>)))
               else dispatch m s1))"

text \<open>
  The \<^verbatim>\<open>close\<close> handler of a connection with the given remote address: the array
  is filtered by \<^verbatim>\<open>connected\<close>, the user list is sent to what remains, and the
  close is logged, with the description when it is neither \<^verbatim>\<open>null\<close> nor empty.
\<close>

definition on_close :: "string \<Rightarrow> int \<Rightarrow> string option \<Rightarrow> server \<Rightarrow> server" where
  "on_close addr reason description s =
     (let s1 = s\<lparr>connectionArray := filter connected (connectionArray s)\<rparr>;
          s2 = s1\<lparr>connectionArray := sendUserListToAll (connectionArray s1)\<rparr>
      in log (ConnectionClosed addr reason
                (case description of None \<Rightarrow> None | Some d \<Rightarrow> if d \<noteq> [] then Some d else None)) s2)"

subsection \<open>Runs of the server\<close>

text \<open>
  The transport clears \<^verbatim>\<open>connected\<close> of a connection when its peer starts to close
  or its socket closes; the \<^verbatim>\<open>close\<close> event of the connection is emitted at the
  latter, so a connection can be dead before its own \<^verbatim>\<open>close\<close> handler runs.
\<close>

definition transport_down :: "int \<Rightarrow> server \<Rightarrow> server" where
  "transport_down cid s =
     s\<lparr>connectionArray :=
         map (\<lambda>c. if clientID c = cid then c\<lparr>connected := False\<rparr> else c) (connectionArray s)\<rparr>"

datatype event =
    Request string string
  | Message message
  | PeerGone int
  | Close int string int "string option"

definition step :: "event \<Rightarrow> server \<Rightarrow> outcome" where
  "step ev s =
     (case ev of
        Request origin addr \<Rightarrow> Inr (on_request origin addr s)
      | Message message \<Rightarrow> on_message message s
      | PeerGone cid \<Rightarrow> Inr (transport_down cid s)
      | Close cid addr reason description \<Rightarrow>
          Inr (on_close addr reason description (transport_down cid s)))"

text \<open>An exception that no handler catches ends the process: the run stops there.\<close>

fun run :: "event list \<Rightarrow> server \<Rightarrow> outcome" where
  "run [] s = Inr s"
| "run (ev # evs) s = (case step ev s of Inl x \<Rightarrow> Inl x | Inr s1 \<Rightarrow> run evs s1)"

definition state_of :: "outcome \<Rightarrow> server" where
  "state_of r = (case r of Inl (e, s) \<Rightarrow> s | Inr s \<Rightarrow> s)"

text \<open>The state at start-up, \<^verbatim>\<open>nextID\<close> being the time of the start.\<close>

definition initial :: "int \<Rightarrow> server" where
  "initial now = \<lparr>connectionArray = [], nextID = now, appendToMakeUnique = 1, console = []\<rparr>"

subsection \<open>Notions for the properties\<close>

text \<open>The display names that are set, in the order of the array.\<close>

definition strs :: "jsval list \<Rightarrow> string list" where
  "strs vs = concat (map (\<lambda>v. case v of Str a \<Rightarrow> [a] | _ \<Rightarrow> []) vs)"


text \<open>
  The array after the username case has sent the notice, if any, and set the name of the
  connection at position \<open>i\<close> (lines 209 to 222), from the array before.
\<close>

definition renamed :: "connection list \<Rightarrow> nat \<Rightarrow> int option \<Rightarrow> jsval \<Rightarrow> bool \<Rightarrow> connection list" where
  "renamed cs i ident name nameChanged =
     (let cs1 = (if nameChanged then cs[i := sendUTF (RejectUsername ident name) (cs ! i)] else cs)
      in cs1[i := (cs1 ! i)\<lparr>username := name\<rparr>])"

subsection \<open>A session of the server\<close>

text \<open>
  The scenario of the specification: the server starts with \<^verbatim>\<open>nextID = 1\<close>; Alice
  connects and asks for the name alice; Bob connects and asks for alice too, and is
  renamed alice1.
\<close>

definition username_request :: "int \<Rightarrow> jsval \<Rightarrow> msg" where
  "username_request i name =
     \<lparr>msg_id = Some i, msg_type = Str ''username'', msg_name = name, msg_text = Undefined,
      msg_target = Undefined, msg_payload = []\<rparr>"

definition chat :: "int \<Rightarrow> string \<Rightarrow> jsval \<Rightarrow> msg" where
  "chat i txt target =
     \<lparr>msg_id = Some i, msg_type = Str ''message'', msg_name = Undefined, msg_text = Str txt,
      msg_target = target, msg_payload = []\<rparr>"

definition video_offer :: "int \<Rightarrow> jsval \<Rightarrow> msg" where
  "video_offer i target =
     \<lparr>msg_id = Some i, msg_type = Str ''video-offer'', msg_name = Undefined, msg_text = Undefined,
      msg_target = target, msg_payload = ''sdp''\<rparr>"

definition alice_alone :: server where
  "alice_alone = state_of (run
     [Request ''http://localhost:3000'' ''10.0.0.1'',
      Message (Utf8 (Json (username_request 1 (Str ''alice''))))] (initial 1))"

definition two_users :: server where
  "two_users = state_of (run
     [Request ''http://localhost:3000'' ''10.0.0.2'',
      Message (Utf8 (Json (username_request 2 (Str ''alice''))))] alice_alone)"

section \<open>Lemmas about the handlers\<close>

subsection \<open>What the name loop returns\<close>

lemma makeUnique_run:
  "makeUnique cs origName name n nameChanged = (name', n', nameChanged') \<Longrightarrow>
     n \<le> n' \<and>
     n' - n \<le> card (taken_from cs origName n) + (if isUsernameUnique cs name then 0 else 1) \<and>
     isUsernameUnique cs name' \<and>
     (if n' = n then name' = name \<and> nameChanged' = nameChanged \<and> isUsernameUnique cs name
      else name' = js_add origName (n' - 1) \<and> nameChanged' \<and> \<not> isUsernameUnique cs name)"
proof (induction cs origName name n nameChanged rule: makeUnique.induct)
  case (1 cs origName name n nameChanged)
  show ?case
  proof (cases "isUsernameUnique cs name")
    case True
    with "1.prems" show ?thesis
      by (simp add: makeUnique.simps [of cs origName name n])
  next
    case False
    with "1.prems" have r: "makeUnique cs origName (js_add origName n) (Suc n) True = (name', n', nameChanged')"
      by (simp add: makeUnique.simps [of cs origName name n])
    note ih = "1.IH" [OF False r]
    from ih have le: "Suc n \<le> n'" by simp
    from ih have "n' - Suc n \<le> card (taken_from cs origName (Suc n)) +
        (if isUsernameUnique cs (js_add origName n) then 0 else 1)" by simp
    then have "n' - Suc n \<le> card (taken_from cs origName n)"
      by (simp add: card_taken_from_step [of cs origName n])
    with le have b: "n' - n \<le> card (taken_from cs origName n) + 1" by arith
    have nm: "name' = js_add origName (n' - 1) \<and> nameChanged'"
    proof (cases "n' = Suc n")
      case True
      with ih show ?thesis by simp
    next
      case False
      with ih show ?thesis by simp
    qed
    from ih have "isUsernameUnique cs name'" by simp
    with le b nm False show ?thesis by simp
  qed
qed



subsection \<open>Lookups, sends and the message handler by cases\<close>

lemma findIndex_Some:
  "findIndex p xs = Some i \<Longrightarrow> i < length xs \<and> p (xs ! i) \<and> (\<forall>j<i. \<not> p (xs ! j))"
proof (induction xs arbitrary: i)
  case Nil
  then show ?case by simp
next
  case (Cons x xs)
  show ?case
  proof (cases "p x")
    case True
    with Cons.prems show ?thesis by simp
  next
    case False
    with Cons.prems obtain k where k: "findIndex p xs = Some k" and i: "i = Suc k"
      by (auto split: option.splits)
    from Cons.IH [OF k] i False show ?thesis
      by (auto simp: less_Suc_eq_0_disj)
  qed
qed

lemma findIndex_ex: "\<exists>x \<in> set xs. p x \<Longrightarrow> \<exists>i. findIndex p xs = Some i"
  using findIndex_None [of p xs] by (cases "findIndex p xs") auto

lemma username_sendUTF [simp]: "username (sendUTF f c) = username c"
  and clientID_sendUTF [simp]: "clientID (sendUTF f c) = clientID c"
  and connected_sendUTF [simp]: "connected (sendUTF f c) = connected c"
  and outbox_sendUTF [simp]: "outbox (sendUTF f c) = outbox c @ [f]"
  by (simp_all add: sendUTF_def)


lemma usernames_send_all: "map username (map (sendUTF f) cs) = map username cs"
  by simp

lemma on_message_Malformed:
  "on_message (Utf8 (Malformed t)) s = Inl (SyntaxError, log (ReceivedMessage (Malformed t)) s)"
  by (simp add: on_message_def)

lemma connectionArray_log [simp]: "connectionArray (log e s) = connectionArray s"
  and appendToMakeUnique_log [simp]: "appendToMakeUnique (log e s) = appendToMakeUnique s"
  and nextID_log [simp]: "nextID (log e s) = nextID s"
  and console_log [simp]: "console (log e s) = console s @ [e]"
  by (simp_all add: log_def)

lemma on_message_username:
  assumes "msg_type m = Str ''username''"
    and "makeUnique (connectionArray s) (msg_name m) (msg_name m) (appendToMakeUnique s) False
           = (name, n, nameChanged)"
  shows "on_message (Utf8 (Json m)) s =
     (case getConnectionForID (connectionArray s) (msg_id m) of
        None \<Rightarrow> Inl (TypeError, (log (ReceivedMessage (Json m)) s)\<lparr>appendToMakeUnique := n\<rparr>)
      | Some i \<Rightarrow> Inr ((log (ReceivedMessage (Json m)) s)
           \<lparr>appendToMakeUnique := n,
            connectionArray := sendUserListToAll (renamed (connectionArray s) i (msg_id m) name nameChanged)\<rparr>))"
  using assms by (simp add: on_message_def renamed_def Let_def split: option.splits)

lemma on_message_chat:
  assumes "msg_type m = Str ''message''"
  shows "on_message (Utf8 (Json m)) s =
     (case getConnectionForID (connectionArray s) (msg_id m) of
        None \<Rightarrow> Inl (TypeError, log (ReceivedMessage (Json m)) s)
      | Some i \<Rightarrow>
          (case msg_text m of
             Str t \<Rightarrow> dispatch (m\<lparr>msg_name := username (connectionArray s ! i), msg_text := Str (strip t)\<rparr>)
                        (log (ReceivedMessage (Json m)) s)
           | _ \<Rightarrow> Inl (TypeError, log (ReceivedMessage (Json m)) s)))"
  using assms by (simp add: on_message_def Let_def split: option.splits jsval.splits)

lemma on_message_other:
  assumes "msg_type m \<noteq> Str ''message''" and "msg_type m \<noteq> Str ''username''"
  shows "on_message (Utf8 (Json m)) s = dispatch m (log (ReceivedMessage (Json m)) s)"
  using assms by (simp add: on_message_def Let_def)

lemma renamed_length [simp]: "length (renamed cs i ident name ch) = length cs"
  by (simp add: renamed_def Let_def)

lemma renamed_nth:
  assumes "j < length cs"
  shows "renamed cs i ident name ch ! j =
     (if j = i then (cs ! i)\<lparr>username := name,
                              outbox := outbox (cs ! i) @ (if ch then [RejectUsername ident name] else [])\<rparr>
      else cs ! j)"
  using assms by (simp add: renamed_def Let_def sendUTF_def nth_list_update)

lemma renamed_usernames:
  "map username (renamed cs i ident name ch) = (map username cs)[i := name]"
  by (simp add: list_eq_iff_nth_eq renamed_nth nth_list_update)

lemma strs_simps [simp]:
  "strs [] = []"
  "strs (Str a # vs) = a # strs vs"
  "strs (Undefined # vs) = strs vs"
  "strs (NaN # vs) = strs vs"
  "strs (vs @ ws) = strs vs @ strs ws"
  by (simp_all add: strs_def)




subsection \<open>The names after each handler\<close>

lemma usernames_sendUserListToAll [simp]: "map username (sendUserListToAll cs) = map username cs"
  by (simp add: sendUserListToAll_def)









subsection \<open>Serving a username request\<close>

lemma js_add_changes: "\<not> isUsernameUnique cs origName \<Longrightarrow> js_add origName k \<noteq> origName"
proof (cases origName)
  case NaN
  assume "\<not> isUsernameUnique cs origName"
  with NaN show ?thesis
    by (simp add: isUsernameUnique_def findIndex_None strict_eq_NaN)
qed (simp_all add: decimal_not_Nil)

lemma makeUnique_changed:
  assumes "makeUnique cs origName origName k False = (name, k', nameChanged)"
  shows "nameChanged \<longleftrightarrow> name \<noteq> origName"
    and "name \<noteq> origName \<longleftrightarrow> \<not> isUsernameUnique cs origName"
    and "isUsernameUnique cs name"
proof -
  note r = makeUnique_run [OF assms]
  show "isUsernameUnique cs name" using r by simp
  show "nameChanged \<longleftrightarrow> name \<noteq> origName"
    using r js_add_changes [of cs origName "k' - 1"] by (auto split: if_splits)
  show "name \<noteq> origName \<longleftrightarrow> \<not> isUsernameUnique cs origName"
    using r js_add_changes [of cs origName "k' - 1"] by (auto split: if_splits)
qed

lemma getConnectionForID_Some:
  "getConnectionForID cs ident = Some i \<Longrightarrow> i < length cs \<and> ident = Some (clientID (cs ! i))"
  using findIndex_Some [of "\<lambda>c. Some (clientID c) = ident" cs i]
  by (simp add: getConnectionForID_def)

lemma sendUserListToAll_nth:
  "j < length cs \<Longrightarrow> sendUserListToAll cs ! j = sendUTF (UserListMsg (map username cs)) (cs ! j)"
  by (simp add: sendUserListToAll_def makeUserListMessage_def)

lemma sendUserListToAll_length [simp]: "length (sendUserListToAll cs) = length cs"
  by (simp add: sendUserListToAll_def)

lemma sendUserListToAll_last:
  "c \<in> set (sendUserListToAll cs) \<Longrightarrow>
     outbox c \<noteq> [] \<and> last (outbox c) = UserListMsg (map username (sendUserListToAll cs))"
  by (auto simp: sendUserListToAll_def makeUserListMessage_def)

text \<open>What serving a username request does, for a request whose id is that of a session.\<close>

lemma username_served:
  assumes t: "msg_type m = Str ''username''"
    and c: "getConnectionForID (connectionArray s) (msg_id m) = Some i"
  shows "\<exists>s' name k nameChanged.
      on_message (Utf8 (Json m)) s = Inr s' \<and>
      makeUnique (connectionArray s) (msg_name m) (msg_name m) (appendToMakeUnique s) False
        = (name, k, nameChanged) \<and>
      connectionArray s' = sendUserListToAll (renamed (connectionArray s) i (msg_id m) name nameChanged) \<and>
      appendToMakeUnique s' = k \<and>
      map username (connectionArray s') = (map username (connectionArray s))[i := name]"
proof -
  obtain name k ch where mu:
    "makeUnique (connectionArray s) (msg_name m) (msg_name m) (appendToMakeUnique s) False = (name, k, ch)"
    by (cases "makeUnique (connectionArray s) (msg_name m) (msg_name m) (appendToMakeUnique s) False")
  show ?thesis
    using on_message_username [OF t mu] c mu
    by (simp add: renamed_usernames)
qed

subsection \<open>The target rule\<close>

lemma has_target_Str: "has_target m \<Longrightarrow> \<exists>t. msg_target m = Str t \<and> t \<noteq> []"
  by (cases "msg_target m") (simp_all add: has_target_def)

lemma dispatch_unknown:
  assumes "has_target m" and "isUsernameUnique (connectionArray s) (msg_target m)"
  shows "dispatch m s = Inl (TypeError, s)"
  using assms by (simp add: dispatch_def sendToOneUser_def isUsernameUnique_def)



lemma has_target_revised [simp]:
  "has_target (m\<lparr>msg_name := a, msg_text := b\<rparr>) = has_target m"
  by (simp add: has_target_def)

subsection \<open>Chat text: what stripping leaves\<close>

lemma tag_end_None: "tag_end cs = None \<longleftrightarrow> cs = [] \<or> hd cs = CHR ''>'' \<or> CHR ''>'' \<notin> set cs"
  by (cases cs) (auto simp: tag_end_def takeWhile_eq_Nil_iff)

lemma tag_end_set: "tag_end cs = Some r \<Longrightarrow> set r \<subseteq> set cs"
proof -
  assume "tag_end cs = Some r"
  then have "r = tl (dropWhile (\<lambda>c. c \<noteq> CHR ''>'') cs)"
    by (simp add: tag_end_def split: if_splits)
  then show ?thesis
    by (metis list.set_sel(2) set_dropWhileD subsetI tl_Nil)
qed

lemma set_strip: "set (strip s) \<subseteq> set s"
proof (induction s rule: strip.induct)
  case 1
  show ?case by simp
next
  case (2 c cs)
  show ?case
  proof (cases "c = CHR ''<''")
    case False
    with 2 show ?thesis by auto
  next
    case True
    show ?thesis
    proof (cases "tag_end cs")
      case None
      with True 2 show ?thesis by auto
    next
      case (Some r)
      with True 2 have "set (strip r) \<subseteq> set r" by simp
      with Some True tag_end_set [OF Some] show ?thesis by auto
    qed
  qed
qed

lemma tag_end_strip: "tag_end cs = None \<Longrightarrow> tag_end (strip cs) = None"
proof (cases cs)
  case Nil
  then show ?thesis by (simp add: tag_end_None)
next
  case (Cons a as)
  assume n: "tag_end cs = None"
  show ?thesis
  proof (cases "a = CHR ''>''")
    case True
    with Cons show ?thesis by (simp add: tag_end_None)
  next
    case False
    with n Cons have "CHR ''>'' \<notin> set cs" by (simp add: tag_end_None)
    with set_strip [of cs] have "CHR ''>'' \<notin> set (strip cs)" by blast
    then show ?thesis by (simp add: tag_end_None)
  qed
qed

subsection \<open>The scenario, evaluated\<close>

lemma alice_alone_eq: "alice_alone =
  \<lparr>connectionArray =
     [\<lparr>clientID = 1, username = Str ''alice'', connected = True, remoteAddress = ''10.0.0.1'',
       outbox = [IdMsg 1, UserListMsg [Str ''alice'']]\<rparr>],
   nextID = 2, appendToMakeUnique = 1,
   console = [ConnectionAccepted ''10.0.0.1'', ReceivedMessage (Json (username_request 1 (Str ''alice'')))]\<rparr>"
  by code_simp

lemma two_users_eq: "two_users =
  \<lparr>connectionArray =
     [\<lparr>clientID = 1, username = Str ''alice'', connected = True, remoteAddress = ''10.0.0.1'',
       outbox = [IdMsg 1, UserListMsg [Str ''alice''], UserListMsg [Str ''alice'', Str ''alice1'']]\<rparr>,
      \<lparr>clientID = 2, username = Str ''alice1'', connected = True, remoteAddress = ''10.0.0.2'',
       outbox = [IdMsg 2, RejectUsername (Some 2) (Str ''alice1''),
                 UserListMsg [Str ''alice'', Str ''alice1'']]\<rparr>],
   nextID = 3, appendToMakeUnique = 2,
   console = [ConnectionAccepted ''10.0.0.1'', ReceivedMessage (Json (username_request 1 (Str ''alice''))),
              ConnectionAccepted ''10.0.0.2'', ReceivedMessage (Json (username_request 2 (Str ''alice'')))]\<rparr>"
  by code_simp

section \<open>Properties\<close>

subsection \<open>Display names\<close>




subsection \<open>A target that nobody has\<close>

text \<open>
  Claim C2, as the code has it. A chat or pass-through message with a non-empty
  \<^verbatim>\<open>target\<close> that is the \<^verbatim>\<open>username\<close> of no connection is not dropped
  silently: the handler throws a \<^verbatim>\<open>TypeError\<close>. When it throws, the frame has been
  logged, nothing has been sent to anyone, and the registry is as before.
\<close>

theorem C2_unknown_target:
  assumes "msg_type m \<noteq> Str ''username''"
    and "has_target m"
    and "isUsernameUnique (connectionArray s) (msg_target m)"
  shows "on_message (Utf8 (Json m)) s = Inl (TypeError, log (ReceivedMessage (Json m)) s)"
proof (cases "msg_type m = Str ''message''")
  case False
  with assms show ?thesis
    by (simp add: on_message_other dispatch_unknown)
next
  case True
  show ?thesis
  proof (cases "getConnectionForID (connectionArray s) (msg_id m)")
    case None
    with True show ?thesis by (simp add: on_message_chat)
  next
    case (Some i)
    show ?thesis
    proof (cases "msg_text m")
      case (Str t)
      with Some True assms show ?thesis
        by (simp add: on_message_chat dispatch_unknown)
    qed (use Some True in \<open>simp_all add: on_message_chat\<close>)
  qed
qed

text \<open>A chat message and a video offer for names that nobody has.\<close>

theorem C2_unknown_target_witness:
  "on_message (Utf8 (Json (chat 1 ''hello'' (Str ''carol'')))) two_users =
     Inl (TypeError, log (ReceivedMessage (Json (chat 1 ''hello'' (Str ''carol'')))) two_users)"
proof (rule C2_unknown_target)
  show "msg_type (chat 1 ''hello'' (Str ''carol'')) \<noteq> Str ''username''"
    by (simp add: chat_def)
  show "has_target (chat 1 ''hello'' (Str ''carol''))"
    by (simp add: chat_def has_target_def)
  show "isUsernameUnique (connectionArray two_users) (msg_target (chat 1 ''hello'' (Str ''carol'')))"
    by (simp add: two_users_eq chat_def isUsernameUnique_def)
qed

theorem C2_counterexample:
  "on_message (Utf8 (Json (video_offer 1 (Str ''bob'')))) two_users =
     Inl (TypeError, log (ReceivedMessage (Json (video_offer 1 (Str ''bob'')))) two_users)"
  by code_simp

subsection \<open>Frames that do not decode\<close>

text \<open>
  Claim C3, as the code has it. A utf8 frame that is not valid JSON is logged, and then
  the handler throws the \<^verbatim>\<open>SyntaxError\<close> of \<^verbatim>\<open>JSON.parse\<close>. A chat or
  username message whose \<^verbatim>\<open>id\<close> is that of no connection (an absent one is such)
  is logged, and then the handler throws a \<^verbatim>\<open>TypeError\<close>. In both cases nothing
  has been sent and the array of connections is as before; only the suffix counter may
  have moved. A message whose \<^verbatim>\<open>type\<close> is absent, or is neither of the two, is
  not dropped: it goes through the target rule as it is.
\<close>

theorem C3_undecodable_frame:
  "on_message (Utf8 (Malformed t)) s = Inl (SyntaxError, log (ReceivedMessage (Malformed t)) s) \<and>
   ((msg_type m = Str ''message'' \<or> msg_type m = Str ''username'') \<and>
    getConnectionForID (connectionArray s) (msg_id m) = None \<longrightarrow>
      (\<exists>k. on_message (Utf8 (Json m)) s =
         Inl (TypeError, (log (ReceivedMessage (Json m)) s)\<lparr>appendToMakeUnique := k\<rparr>))) \<and>
   (msg_type m \<noteq> Str ''message'' \<and> msg_type m \<noteq> Str ''username'' \<longrightarrow>
      on_message (Utf8 (Json m)) s = dispatch m (log (ReceivedMessage (Json m)) s))"
proof (intro conjI impI)
  show "on_message (Utf8 (Malformed t)) s = Inl (SyntaxError, log (ReceivedMessage (Malformed t)) s)"
    by (rule on_message_Malformed)
next
  assume a: "(msg_type m = Str ''message'' \<or> msg_type m = Str ''username'') \<and>
    getConnectionForID (connectionArray s) (msg_id m) = None"
  show "\<exists>k. on_message (Utf8 (Json m)) s =
         Inl (TypeError, (log (ReceivedMessage (Json m)) s)\<lparr>appendToMakeUnique := k\<rparr>)"
  proof (cases "msg_type m = Str ''message''")
    case True
    with a have "on_message (Utf8 (Json m)) s =
        Inl (TypeError, (log (ReceivedMessage (Json m)) s)\<lparr>appendToMakeUnique := appendToMakeUnique s\<rparr>)"
      by (simp add: on_message_chat log_def)
    then show ?thesis ..
  next
    case False
    with a have u: "msg_type m = Str ''username''" by simp
    obtain name k ch where mu:
      "makeUnique (connectionArray s) (msg_name m) (msg_name m) (appendToMakeUnique s) False = (name, k, ch)"
      by (cases "makeUnique (connectionArray s) (msg_name m) (msg_name m) (appendToMakeUnique s) False")
    from on_message_username [OF u mu] a have "on_message (Utf8 (Json m)) s =
        Inl (TypeError, (log (ReceivedMessage (Json m)) s)\<lparr>appendToMakeUnique := k\<rparr>)"
      by simp
    then show ?thesis ..
  qed
next
  assume "msg_type m \<noteq> Str ''message'' \<and> msg_type m \<noteq> Str ''username''"
  then show "on_message (Utf8 (Json m)) s = dispatch m (log (ReceivedMessage (Json m)) s)"
    by (simp add: on_message_other)
qed

text \<open>A frame that does not parse, a chat message with an unknown id, and an offer with one.\<close>

theorem C3_undecodable_frame_witness:
  "on_message (Utf8 (Malformed ''{oops'')) two_users =
     Inl (SyntaxError, log (ReceivedMessage (Malformed ''{oops'')) two_users) \<and>
   (\<exists>k. on_message (Utf8 (Json (chat 7 ''hello'' Undefined))) two_users =
     Inl (TypeError, (log (ReceivedMessage (Json (chat 7 ''hello'' Undefined))) two_users)
        \<lparr>appendToMakeUnique := k\<rparr>)) \<and>
   on_message (Utf8 (Json (video_offer 7 Undefined))) two_users =
     dispatch (video_offer 7 Undefined) (log (ReceivedMessage (Json (video_offer 7 Undefined))) two_users)"
proof -
  have a: "(msg_type (chat 7 ''hello'' Undefined) = Str ''message'' \<or>
            msg_type (chat 7 ''hello'' Undefined) = Str ''username'') \<and>
      getConnectionForID (connectionArray two_users) (msg_id (chat 7 ''hello'' Undefined)) = None"
    by (simp add: two_users_eq chat_def getConnectionForID_def)
  have b: "msg_type (video_offer 7 Undefined) \<noteq> Str ''message'' \<and>
      msg_type (video_offer 7 Undefined) \<noteq> Str ''username''"
    by (simp add: video_offer_def)
  from a C3_undecodable_frame [of "''{oops''" two_users "chat 7 ''hello'' Undefined"]
    b C3_undecodable_frame [of "''{oops''" two_users "video_offer 7 Undefined"]
  show ?thesis by blast
qed

theorem C3_counterexample:
  "on_message (Utf8 (Malformed ''{oops'')) alice_alone =
     Inl (SyntaxError, log (ReceivedMessage (Malformed ''{oops'')) alice_alone)"
  by code_simp

subsection \<open>The granted name\<close>

text \<open>
  Claim C4, as the code has it. For a username request whose \<^verbatim>\<open>id\<close> is that of a
  session, the handler returns, and the name granted to that session differs from the
  requested one exactly when some connection of the registry, the requester included,
  has the requested name at that moment. So a request for the requester's own name is
  renamed with a suffix, and the empty string is a name like any other. In every case
  the user list is the last frame sent to each connection.
\<close>

theorem C4_granted_name:
  assumes "msg_type m = Str ''username''"
    and "getConnectionForID (connectionArray s) (msg_id m) = Some i"
  shows "\<exists>s'. on_message (Utf8 (Json m)) s = Inr s' \<and>
      (username (connectionArray s' ! i) \<noteq> msg_name m \<longleftrightarrow>
         (\<exists>c \<in> set (connectionArray s). strict_eq (username c) (msg_name m))) \<and>
      (\<forall>c \<in> set (connectionArray s').
         outbox c \<noteq> [] \<and> last (outbox c) = UserListMsg (map username (connectionArray s')))"
proof -
  from username_served [OF assms] obtain s' name k ch where
    r: "on_message (Utf8 (Json m)) s = Inr s'"
    and mu: "makeUnique (connectionArray s) (msg_name m) (msg_name m) (appendToMakeUnique s) False = (name, k, ch)"
    and a: "connectionArray s' = sendUserListToAll (renamed (connectionArray s) i (msg_id m) name ch)"
    and u: "map username (connectionArray s') = (map username (connectionArray s))[i := name]"
    by blast
  let ?cs = "connectionArray s"
  from getConnectionForID_Some [OF assms(2)] have i: "i < length ?cs" by simp
  have len: "length (connectionArray s') = length ?cs" by (simp add: a)
  from u i len have ni: "username (connectionArray s' ! i) = name"
    by (metis length_map nth_list_update_eq nth_map)
  have "name \<noteq> msg_name m \<longleftrightarrow> \<not> isUsernameUnique ?cs (msg_name m)"
    by (rule makeUnique_changed(2) [OF mu])
  then have d: "username (connectionArray s' ! i) \<noteq> msg_name m \<longleftrightarrow>
      (\<exists>c \<in> set ?cs. strict_eq (username c) (msg_name m))"
    by (simp add: ni isUsernameUnique_def findIndex_None)
  have "outbox c \<noteq> [] \<and> last (outbox c) = UserListMsg (map username (connectionArray s'))"
    if "c \<in> set (connectionArray s')" for c
    using that sendUserListToAll_last [of c "renamed ?cs i (msg_id m) name ch"] by (simp add: a)
  with r d show ?thesis by blast
qed

text \<open>
  Alice asks for alice a second time: with Bob in the room, and alone, where she becomes
  alice1.
\<close>

theorem C4_granted_name_witness:
  "\<exists>s'. on_message (Utf8 (Json (username_request 1 (Str ''alice'')))) two_users = Inr s' \<and>
     username (connectionArray s' ! 0) \<noteq> Str ''alice''"
proof -
  have t: "msg_type (username_request 1 (Str ''alice'')) = Str ''username''"
    by (simp add: username_request_def)
  have c: "getConnectionForID (connectionArray two_users) (msg_id (username_request 1 (Str ''alice''))) = Some 0"
    by (simp add: two_users_eq username_request_def getConnectionForID_def)
  have h: "\<exists>c \<in> set (connectionArray two_users).
      strict_eq (username c) (msg_name (username_request 1 (Str ''alice'')))"
    by (simp add: two_users_eq username_request_def)
  have n: "msg_name (username_request 1 (Str ''alice'')) = Str ''alice''"
    by (simp add: username_request_def)
  from C4_granted_name [OF t c] h n show ?thesis by auto
qed

theorem C4_counterexample:
  "map clientID (connectionArray alice_alone) = [1] \<and>
   map username (connectionArray alice_alone) = [Str ''alice''] \<and>
   map username (connectionArray (state_of
     (on_message (Utf8 (Json (username_request 1 (Str ''alice'')))) alice_alone))) = [Str ''alice1'']"
  by code_simp

subsection \<open>The user list\<close>

text \<open>
  Claim C5, as the code has it. After a close and after a username request that is
  served, every connection of the registry has just been sent a user list, and that list
  is the \<^verbatim>\<open>username\<close> of each connection of the registry at that moment, in the
  order of the array. The order of the array is the order of insertion: a close keeps the
  connected ones in their order, a rename keeps them all, and a request appends the new
  connection. The request handler sends no user list: the new connection is sent its id
  and nothing else, and the others are sent nothing.
\<close>

theorem C5_roster:
  "(\<forall>c \<in> set (connectionArray (on_close addr reason description s)).
      outbox c \<noteq> [] \<and>
      last (outbox c) = UserListMsg (map username (connectionArray (on_close addr reason description s)))) \<and>
   map clientID (connectionArray (on_close addr reason description s)) =
     map clientID (filter connected (connectionArray s)) \<and>
   (msg_type m = Str ''username'' \<and> getConnectionForID (connectionArray s) (msg_id m) = Some i \<longrightarrow>
      (\<exists>s'. on_message (Utf8 (Json m)) s = Inr s' \<and>
         (\<forall>c \<in> set (connectionArray s').
            outbox c \<noteq> [] \<and> last (outbox c) = UserListMsg (map username (connectionArray s'))) \<and>
         map clientID (connectionArray s') = map clientID (connectionArray s))) \<and>
   connectionArray (on_request origin addr' s) =
     connectionArray s @
     [\<lparr>clientID = nextID s, username = Undefined, connected = True, remoteAddress = addr',
       outbox = [IdMsg (nextID s)]\<rparr>]"
proof (intro conjI impI ballI)
  fix c
  assume "c \<in> set (connectionArray (on_close addr reason description s))"
  then have "c \<in> set (sendUserListToAll (filter connected (connectionArray s)))"
    by (simp add: on_close_def Let_def)
  from sendUserListToAll_last [OF this]
  show "outbox c \<noteq> []"
    and "last (outbox c) = UserListMsg (map username (connectionArray (on_close addr reason description s)))"
    by (simp_all add: on_close_def Let_def)
next
  show "map clientID (connectionArray (on_close addr reason description s)) =
     map clientID (filter connected (connectionArray s))"
    by (simp add: on_close_def Let_def sendUserListToAll_def)
next
  assume a: "msg_type m = Str ''username'' \<and> getConnectionForID (connectionArray s) (msg_id m) = Some i"
  then have t: "msg_type m = Str ''username''"
    and c: "getConnectionForID (connectionArray s) (msg_id m) = Some i" by simp_all
  from username_served [OF t c] obtain s' name and k :: nat and ch where
    r: "on_message (Utf8 (Json m)) s = Inr s'"
    and ar: "connectionArray s' = sendUserListToAll (renamed (connectionArray s) i (msg_id m) name ch)"
    by blast
  have "outbox c \<noteq> [] \<and> last (outbox c) = UserListMsg (map username (connectionArray s'))"
    if "c \<in> set (connectionArray s')" for c
    using that sendUserListToAll_last [of c "renamed (connectionArray s) i (msg_id m) name ch"]
    by (simp add: ar)
  moreover have "map clientID (connectionArray s') = map clientID (connectionArray s)"
    by (simp add: ar list_eq_iff_nth_eq sendUserListToAll_nth renamed_nth)
  ultimately show "\<exists>s'. on_message (Utf8 (Json m)) s = Inr s' \<and>
         (\<forall>c \<in> set (connectionArray s').
            outbox c \<noteq> [] \<and> last (outbox c) = UserListMsg (map username (connectionArray s'))) \<and>
         map clientID (connectionArray s') = map clientID (connectionArray s)"
    using r by blast
next
  show "connectionArray (on_request origin addr' s) =
     connectionArray s @
     [\<lparr>clientID = nextID s, username = Undefined, connected = True, remoteAddress = addr',
       outbox = [IdMsg (nextID s)]\<rparr>]"
    by (simp add: on_request_def originIsAllowed_def Let_def sendUTF_def)
qed

text \<open>Bob's close and Bob's rename in the scenario; Bob's request, after which nobody is sent a list.\<close>

theorem C5_roster_witness:
  "last (outbox (connectionArray (on_close ''10.0.0.2'' 1001 None (transport_down 2 two_users)) ! 0)) =
     UserListMsg [Str ''alice''] \<and>
   (\<exists>s'. on_message (Utf8 (Json (username_request 2 (Str ''bob'')))) two_users = Inr s' \<and>
      map clientID (connectionArray s') = [1, 2])"
proof -
  let ?s = "on_close ''10.0.0.2'' 1001 None (transport_down 2 two_users)"
  let ?m = "username_request 2 (Str ''bob'')"
  note r = C5_roster [where s = "transport_down 2 two_users" and addr = "''10.0.0.2''"
      and reason = 1001 and description = None]
  note q = C5_roster [where s = two_users and m = ?m and i = 1]
  have mem: "connectionArray ?s ! 0 \<in> set (connectionArray ?s)"
    by code_simp
  have u: "map username (connectionArray ?s) = [Str ''alice'']"
    by code_simp
  note b = r [THEN conjunct1]
  from b mem u have 1: "last (outbox (connectionArray ?s ! 0)) = UserListMsg [Str ''alice'']"
    by auto
  have h: "msg_type ?m = Str ''username'' \<and>
      getConnectionForID (connectionArray two_users) (msg_id ?m) = Some 1"
    by (simp add: username_request_def two_users_eq getConnectionForID_def)
  have c: "map clientID (connectionArray two_users) = [1, 2]"
    by (simp add: two_users_eq)
  note e = q [THEN conjunct2, THEN conjunct2, THEN conjunct1, THEN mp, OF h]
  from e c have 2: "\<exists>s'. on_message (Utf8 (Json ?m)) two_users = Inr s' \<and>
      map clientID (connectionArray s') = [1, 2]"
    by auto
  from 1 2 show ?thesis by (rule conjI)
qed

theorem C5_counterexample:
  "map outbox (connectionArray alice_alone) = [[IdMsg 1, UserListMsg [Str ''alice'']]] \<and>
   map outbox (connectionArray (on_request ''http://localhost:3000'' ''10.0.0.2'' alice_alone)) =
     [[IdMsg 1, UserListMsg [Str ''alice'']], [IdMsg 2]]"
  by code_simp

subsection \<open>The notice of a changed name\<close>



subsection \<open>The name loop\<close>



subsection \<open>Routing\<close>



subsection \<open>Chat text: stripping twice\<close>

text \<open>
  Claim C9. The sanitization of chat text, the removal of every \<^verbatim>\<open><...>\<close> span by
  the pattern replace, is idempotent: stripping a stripped string returns it unchanged,
  for every string.
\<close>

theorem C9_strip_idempotent: "strip (strip s) = strip s"
proof (induction s rule: strip.induct)
  case 1
  show ?case by simp
next
  case (2 c cs)
  show ?case
  proof (cases "c = CHR ''<''")
    case False
    with 2 show ?thesis by simp
  next
    case True
    show ?thesis
    proof (cases "tag_end cs")
      case None
      with True 2 tag_end_strip [OF None] show ?thesis by simp
    next
      case (Some r)
      with True 2 show ?thesis by simp
    qed
  qed
qed

text \<open>Nested brackets leave a lone closing bracket, which a second pass keeps.\<close>

theorem C9_strip_idempotent_witness:
  "strip ''hi <b>bob</b> <<i>>'' = ''hi bob >'' \<and> strip (strip ''hi <b>bob</b> <<i>>'') = ''hi bob >''"
  using C9_strip_idempotent [of "''hi <b>bob</b> <<i>>''"]
  by code_simp

subsection \<open>Closing\<close>

text \<open>
  Claim C10. After the close handler of any connection has run, the registry is the
  connections that reported \<^verbatim>\<open>connected\<close> before, in their order, each with the
  user list appended to what it was sent: every dead connection is gone, whichever
  connection the close was for. A close handled right after, as that of a connection the
  first close has purged, keeps every connection of the registry; so does any close that
  finds all connections of the registry reporting \<^verbatim>\<open>connected\<close>.
\<close>

theorem C10_close_purges:
  "(let live = filter connected (connectionArray s)
    in connectionArray (on_close addr reason description s) =
         map (sendUTF (UserListMsg (map username live))) live) \<and>
   (let after = connectionArray (on_close addr reason description s)
    in connectionArray (on_close addr2 reason2 description2 (on_close addr reason description s)) =
         map (sendUTF (UserListMsg (map username after))) after) \<and>
   ((\<forall>c \<in> set (connectionArray s). connected c) \<longrightarrow>
      connectionArray (on_close addr reason description s) =
        map (sendUTF (UserListMsg (map username (connectionArray s)))) (connectionArray s))"
  by (simp add: on_close_def Let_def sendUserListToAll_def makeUserListMessage_def filter_map comp_def)

text \<open>
  Bob's close purges Bob; with Alice's transport down as well it purges both; a close
  that finds both connected purges nobody.
\<close>

theorem C10_close_purges_witness:
  "map clientID (connectionArray (on_close ''10.0.0.2'' 1001 None (transport_down 2 two_users))) = [1] \<and>
   map clientID (connectionArray (on_close ''10.0.0.2'' 1001 None (transport_down 1 (transport_down 2 two_users)))) = [] \<and>
   map clientID (connectionArray (on_close ''10.0.0.9'' 1001 None two_users)) = [1, 2]"
proof -
  have h: "\<forall>c \<in> set (connectionArray two_users). connected c"
    by (simp add: two_users_eq)
  have a: "map clientID (filter connected (connectionArray (transport_down 2 two_users))) = [1]"
    by (simp add: two_users_eq transport_down_def)
  have b: "map clientID (filter connected (connectionArray (transport_down 1 (transport_down 2 two_users)))) = []"
    by (simp add: two_users_eq transport_down_def)
  have c: "map clientID (connectionArray two_users) = [1, 2]"
    by (simp add: two_users_eq)
  from C10_close_purges [of "transport_down 2 two_users" "''10.0.0.2''" 1001 None]
  have 1: "map clientID (connectionArray (on_close ''10.0.0.2'' 1001 None (transport_down 2 two_users))) = [1]"
    using a by (simp add: Let_def comp_def)
  from C10_close_purges [of "transport_down 1 (transport_down 2 two_users)" "''10.0.0.2''" 1001 None]
  have 2: "map clientID (connectionArray (on_close ''10.0.0.2'' 1001 None (transport_down 1 (transport_down 2 two_users)))) = []"
    using b by (simp add: Let_def comp_def)
  from C10_close_purges [of two_users "''10.0.0.9''" 1001 None] h
  have 3: "map clientID (connectionArray (on_close ''10.0.0.9'' 1001 None two_users)) = [1, 2]"
    using c by (simp add: comp_def)
  from 1 2 3 show ?thesis by simp
qed

end
